theory Spec2Isabelle
  imports Main "HOL-Library.FSet" "HOL-Library.AList"
begin

section \<open>Python values, dictionaries and string formatting\<close>

text \<open>
  The WeMo integration passes configuration around as Python dictionaries from string keys
  to strings, integers and \<^verbatim>\<open>None\<close> (\<^verbatim>\<open>ConfigType\<close>). A dictionary is an association list with
  Python's update discipline: a key that is present keeps its position, a new key goes to
  the end.
\<close>

datatype py_value = PyStr string | PyInt int | PyNone

type_synonym config_type = "(string \<times> py_value) list"

definition dict_merge :: "config_type \<Rightarrow> config_type \<Rightarrow> config_type" where
  \<comment> \<open>\<^verbatim>\<open>{**a, **b}\<close>\<close>
  "dict_merge a b = foldl (\<lambda>acc (k, v). AList.update k v acc) a b"

fun truthy :: "py_value \<Rightarrow> bool" where
  "truthy (PyStr s) = (s \<noteq> [])"
| "truthy (PyInt n) = (n \<noteq> 0)"
| "truthy PyNone = False"

function str_nat :: "nat \<Rightarrow> string" where
  "str_nat n =
     (if n < 10 then [''0123456789'' ! n]
      else str_nat (n div 10) @ [''0123456789'' ! (n mod 10)])"
  by pat_completeness auto
termination
  by (relation "measure id") auto

declare str_nat.simps [simp del]

definition str_int :: "int \<Rightarrow> string" where
  "str_int i = (if i < 0 then CHR ''-'' # str_nat (nat (- i)) else str_nat (nat i))"

fun format :: "py_value \<Rightarrow> string" where
  \<comment> \<open>what an f-string or \<^verbatim>\<open>%s\<close> renders\<close>
  "format (PyStr s) = s"
| "format (PyInt n) = str_int n"
| "format PyNone = ''None''"

section \<open>Constants of the host that the component imports\<close>

text \<open>
  Modelled from the spec: the key names of \<^verbatim>\<open>homeassistant.const\<close>, the domain names of
  the four entity platforms and the component's own \<^verbatim>\<open>const.DOMAIN\<close> are not among the
  source files; the spec names the four categories \<^verbatim>\<open>binary_sensor\<close>, \<^verbatim>\<open>fan\<close>,
  \<^verbatim>\<open>light\<close> and \<^verbatim>\<open>switch\<close>.
\<close>

named_theorems const_defs

definition CONF_HOST :: string where [const_defs]: "CONF_HOST = ''host''"
definition CONF_PORT :: string where [const_defs]: "CONF_PORT = ''port''"
definition CONF_DOMAIN :: string where [const_defs]: "CONF_DOMAIN = ''domain''"
definition BINARY_SENSOR_DOMAIN :: string where [const_defs]: "BINARY_SENSOR_DOMAIN = ''binary_sensor''"
definition FAN_DOMAIN :: string where [const_defs]: "FAN_DOMAIN = ''fan''"
definition LIGHT_DOMAIN :: string where [const_defs]: "LIGHT_DOMAIN = ''light''"
definition SWITCH_DOMAIN :: string where [const_defs]: "SWITCH_DOMAIN = ''switch''"
definition CONFIG_ENTRY_VERSION :: int where [const_defs]: "CONFIG_ENTRY_VERSION = 2"
definition ERROR_CANNOT_CONNECT :: string where [const_defs]: "ERROR_CANNOT_CONNECT = ''cannot_connect''"
definition ERROR_CANNOT_DETERMINE_PORT :: string where
  [const_defs]: "ERROR_CANNOT_DETERMINE_PORT = ''cannot_determine_port''"
definition STEP_ID_USER :: string where [const_defs]: "STEP_ID_USER = ''user''"

section \<open>Model dispatch (\<^verbatim>\<open>__init__.py\<close>, lines 29-41 and 115)\<close>

definition WEMO_MODEL_DISPATCH :: "(string \<times> string) list" where
  "WEMO_MODEL_DISPATCH =
    [(''Bridge'', LIGHT_DOMAIN),
     (''CoffeeMaker'', SWITCH_DOMAIN),
     (''Dimmer'', LIGHT_DOMAIN),
     (''Humidifier'', FAN_DOMAIN),
     (''Insight'', SWITCH_DOMAIN),
     (''LightSwitch'', SWITCH_DOMAIN),
     (''Maker'', SWITCH_DOMAIN),
     (''Motion'', BINARY_SENSOR_DOMAIN),
     (''Sensor'', BINARY_SENSOR_DOMAIN),
     (''Socket'', SWITCH_DOMAIN)]"

definition classify :: "string \<Rightarrow> string" where
  \<comment> \<open>\<^verbatim>\<open>WEMO_MODEL_DISPATCH.get(device.model_name, SWITCH_DOMAIN)\<close>\<close>
  "classify model =
     (case map_of WEMO_MODEL_DISPATCH model of None \<Rightarrow> SWITCH_DOMAIN | Some d \<Rightarrow> d)"

section \<open>Errors\<close>

datatype requests_exception =
    ConnectionError string
  | Timeout string
  | OtherException string

datatype error =
    Invalid string
  | CannotDeterminePortError string
  | ConnectError string requests_exception
  | KeyError string
  | Unhandled requests_exception
  | UnknownEntry

text \<open>
  \<^verbatim>\<open>ConnectError\<close> carries its message and its \<^verbatim>\<open>__cause__\<close> (the \<^verbatim>\<open>from err\<close> of
  the raise). \<^verbatim>\<open>CannotDeterminePortError\<close> is a subclass of \<^verbatim>\<open>ConnectError\<close>; every
  handler of the component that tells them apart tries the subclass first, and so do the
  case distinctions below. \<^verbatim>\<open>Unhandled\<close> is an exception of the description fetch that
  the component does not catch.
\<close>

fun is_CannotDeterminePortError :: "error + 'a \<Rightarrow> bool" where
  "is_CannotDeterminePortError (Inl (CannotDeterminePortError m)) = True"
| "is_CannotDeterminePortError r = False"

section \<open>Static configuration (\<^verbatim>\<open>coerce_host_port\<close>)\<close>

definition partition_colon :: "string \<Rightarrow> string \<times> string \<times> string" where
  \<comment> \<open>\<^verbatim>\<open>value.partition(":")\<close>\<close>
  "partition_colon v =
     (case dropWhile (\<lambda>c. c \<noteq> CHR '':'') v of
        [] \<Rightarrow> (v, [], [])
      | sep # after \<Rightarrow> (takeWhile (\<lambda>c. c \<noteq> CHR '':'') v, [sep], after))"

definition coerce_host_port :: "(string \<Rightarrow> error + int) \<Rightarrow> string \<Rightarrow> error + string \<times> int" where
  "coerce_host_port port_validator v =
     (case partition_colon v of (host, _, port) \<Rightarrow>
        if host = [] then Inl (Invalid ''host cannot be empty'')
        else if port \<noteq> [] then
          (case port_validator port of Inl e \<Rightarrow> Inl e | Inr p \<Rightarrow> Inr (host, p))
        else Inr (host, 0))"

definition digit_val :: "char \<Rightarrow> int" where
  "digit_val c = int (of_char c) - 48"

definition cv_port :: "string \<Rightarrow> error + int" where
  \<comment> \<open>Modelled from the spec: the port validator \<^verbatim>\<open>cv.port\<close> of the host's
      \<^verbatim>\<open>config_validation\<close> helpers is not among the source files; the spec asks for a
      port number, here a decimal numeral between 1 and 65535.\<close>
  "cv_port s =
     (if s \<noteq> [] \<and> list_all (\<lambda>c. c \<in> set ''0123456789'') s then
        (let n = foldl (\<lambda>a c. 10 * a + digit_val c) 0 s
         in if 1 \<le> n \<and> n \<le> 65535 then Inr n
            else Inl (Invalid ''value must be at least 1 and at most 65535''))
      else Inl (Invalid ''expected int''))"

fun CONFIG_SCHEMA :: "(string \<Rightarrow> error + int) \<Rightarrow> string list \<Rightarrow> error + (string \<times> int) list" where
  \<comment> \<open>the list under \<^verbatim>\<open>CONF_STATIC\<close>: every entry goes through \<^verbatim>\<open>coerce_host_port\<close>,
      one rejected entry rejects the configuration\<close>
  "CONFIG_SCHEMA port_validator [] = Inr []"
| "CONFIG_SCHEMA port_validator (v # vs) =
     (case coerce_host_port port_validator v of
        Inl e \<Rightarrow> Inl e
      | Inr hp \<Rightarrow>
          (case CONFIG_SCHEMA port_validator vs of Inl e \<Rightarrow> Inl e | Inr hps \<Rightarrow> Inr (hp # hps)))"

section \<open>The collaborators and the state of the host\<close>

text \<open>
  \<^verbatim>\<open>pywemo\<close> is an external library. The component calls two of its functions, which
  are parameters here: \<^verbatim>\<open>setup_url_for_address\<close> answers \<^verbatim>\<open>None\<close> or a URL, and
  \<^verbatim>\<open>discovery.device_from_description\<close> raises or returns a device.
\<close>

record wemo_device =
  name :: string
  serialnumber :: string
  model_name :: string

record pywemo =
  setup_url_for_address :: "py_value \<Rightarrow> py_value \<Rightarrow> string option"
  device_from_description :: "string \<Rightarrow> requests_exception + wemo_device"

datatype pywemo_call =
    SetupUrlForAddress py_value py_value
  | DeviceFromDescription string

record config_entry =
  entry_id :: nat
  version :: int
  unique_id :: "string option"
  title :: string
  data :: config_type

record device_entry =
  config_entries :: "nat fset"

record ssdp_info =
  ssdp_location_hostname :: py_value
  ssdp_location_port :: py_value
  upnp_serial :: string
  upnp_friendly_name :: string

datatype task =
    FlowInitImport config_type
  | ForwardEntrySetup nat string
  | RemoveEntry nat

text \<open>
  The state of the host as far as the component reads and writes it: the stored config
  entries (an entry object is its position in \<open>entries\<close>), the device registry, the
  component's device cache \<^verbatim>\<open>hass.data[DOMAIN]["pywemo_wemodevice_cache"]\<close>, the tasks
  handed to \<^verbatim>\<open>hass.async_create_task\<close> that have not run yet, the calls made to
  \<^verbatim>\<open>pywemo\<close> so far, and the SSDP announcements the config flow keeps in
  \<^verbatim>\<open>hass.data[DOMAIN]["discovery_info"]\<close>. Entry identifiers are drawn from a counter.
  An SSDP announcement (\<open>ssdp_info\<close>) holds its serial number, its friendly name and
  its location as \<^verbatim>\<open>urlparse\<close> reads it: a host name and a port, either of which may be
  \<^verbatim>\<open>None\<close>.
\<close>

record hass =
  entries :: "config_entry list"
  devices :: "device_entry list"
  pywemo_wemodevice_cache :: "string \<rightharpoonup> wemo_device"
  tasks :: "task list"
  calls :: "pywemo_call list"
  next_entry_id :: nat
  discovery_info :: "string \<rightharpoonup> ssdp_info"

section \<open>The resolver (\<^verbatim>\<open>_get_wemo_device\<close>, \<^verbatim>\<open>async_get_wemo_device\<close>)\<close>

definition get_wemo_device ::
  "pywemo \<Rightarrow> py_value \<Rightarrow> py_value \<Rightarrow> pywemo_call list \<times> (error + wemo_device)" where
  \<comment> \<open>\<^verbatim>\<open>_get_wemo_device\<close>; the first component lists the calls to \<^verbatim>\<open>pywemo\<close> it made\<close>
  "get_wemo_device lib host port =
     (case setup_url_for_address lib host port of
        None \<Rightarrow>
          ([SetupUrlForAddress host port],
           Inl (CannotDeterminePortError
                  (''Unable to get description url for WeMo at: '' @
                   (if truthy port then format host @ '':'' @ format port else format host))))
      | Some url \<Rightarrow>
          ([SetupUrlForAddress host port, DeviceFromDescription url],
           (case device_from_description lib url of
              Inr device \<Rightarrow> Inr device
            | Inl (ConnectionError m) \<Rightarrow>
                Inl (ConnectError
                       (''Unable to access WeMo at '' @ url @ '' ('' @ m @ '')'')
                       (ConnectionError m))
            | Inl (Timeout m) \<Rightarrow>
                Inl (ConnectError
                       (''Unable to access WeMo at '' @ url @ '' ('' @ m @ '')'')
                       (Timeout m))
            | Inl (OtherException m) \<Rightarrow> Inl (Unhandled (OtherException m)))))"

definition cache_key :: "py_value \<Rightarrow> py_value \<Rightarrow> string" where
  \<comment> \<open>\<^verbatim>\<open>f"{host}:{port}"\<close>\<close>
  "cache_key host port = format host @ '':'' @ format port"

definition async_get_wemo_device ::
  "pywemo \<Rightarrow> hass \<Rightarrow> config_type \<Rightarrow> bool \<Rightarrow> hass \<times> (error + wemo_device)" where
  "async_get_wemo_device lib st config_data remove_cache =
     (case map_of config_data CONF_HOST of
        None \<Rightarrow> (st, Inl (KeyError CONF_HOST))
      | Some host \<Rightarrow>
     (case map_of config_data CONF_PORT of
        None \<Rightarrow> (st, Inl (KeyError CONF_PORT))
      | Some port \<Rightarrow>
         let cache = pywemo_wemodevice_cache st;
             key = cache_key host port;
             found = cache key;
             cache1 = (if remove_cache then cache(key := None) else cache);
             st1 = st\<lparr>pywemo_wemodevice_cache := cache1\<rparr>
         in (case found of
               Some device \<Rightarrow> (st1, Inr device)
             | None \<Rightarrow>
                 (case get_wemo_device lib host port of
                    (made, Inl e) \<Rightarrow> (st1\<lparr>calls := calls st1 @ made\<rparr>, Inl e)
                  | (made, Inr device) \<Rightarrow>
                      (st1\<lparr>calls := calls st1 @ made,
                           pywemo_wemodevice_cache := cache1(key \<mapsto> device)\<rparr>,
                       Inr device)))))"

section \<open>Operations of the host's configuration store\<close>

definition async_update_entry :: "config_entry list \<Rightarrow> nat \<Rightarrow> config_type \<Rightarrow> config_entry list" where
  \<comment> \<open>Modelled from the spec: the update operation of the host's configuration store is not
      among the source files; it replaces the data of the entry it is given and touches
      nothing else.\<close>
  "async_update_entry es i d = es[i := (es ! i)\<lparr>data := d\<rparr>]"

definition async_create_entry ::
  "hass \<Rightarrow> string option \<Rightarrow> string \<Rightarrow> config_type \<Rightarrow> hass" where
  \<comment> \<open>Modelled from the spec: the create operation of the host's configuration store is not
      among the source files; the new record carries the flow's unique id, the flow
      handler's \<^verbatim>\<open>VERSION\<close> and the data handed over.\<close>
  "async_create_entry st uid ttl d =
     st\<lparr>entries := entries st @
            [\<lparr>entry_id = next_entry_id st, version = CONFIG_ENTRY_VERSION,
              unique_id = uid, title = ttl, data = d\<rparr>],
        next_entry_id := Suc (next_entry_id st)\<rparr>"

definition async_remove :: "hass \<Rightarrow> nat \<Rightarrow> hass" where
  \<comment> \<open>Modelled from the spec: the remove operation of the host's configuration store is not
      among the source files; it drops the record with that identifier.\<close>
  "async_remove st eid = st\<lparr>entries := filter (\<lambda>e. entry_id e \<noteq> eid) (entries st)\<rparr>"

fun abort_if_unique_id_configured ::
  "config_entry list \<Rightarrow> string \<Rightarrow> config_type \<Rightarrow> config_entry list option" where
  \<comment> \<open>Modelled from the spec: \<^verbatim>\<open>_abort_if_unique_id_configured(updates)\<close> of the host's
      \<^verbatim>\<open>ConfigFlow\<close> is not among the source files. Following section 4.3 of the spec, the
      first record whose \<^verbatim>\<open>unique_id\<close> is the flow's gets the supplied fields written into
      its data in place, and the flow is then rejected as a duplicate (the result is the
      updated store); \<open>None\<close> says that no record matched and the flow goes on.\<close>
  "abort_if_unique_id_configured [] uid updates = None"
| "abort_if_unique_id_configured (e # es) uid updates =
     (if unique_id e = Some uid
      then Some (async_update_entry (e # es) 0 (dict_merge (data e) updates))
      else map_option ((#) e) (abort_if_unique_id_configured es uid updates))"

section \<open>Setting up and migrating an entry (\<^verbatim>\<open>__init__.py\<close>)\<close>

definition async_setup_entry :: "pywemo \<Rightarrow> hass \<Rightarrow> nat \<Rightarrow> hass \<times> (error + bool)" where
  \<comment> \<open>the entry is the one stored at position \<open>i\<close>; the host hands over stored entries
      only and raises \<^verbatim>\<open>UnknownEntry\<close> for anything else\<close>
  "async_setup_entry lib st i =
     (if length (entries st) \<le> i then (st, Inl UnknownEntry)
      else
        let entry = entries st ! i in
        (case async_get_wemo_device lib st (data entry) False of
           (st1, Inl e) \<Rightarrow> (st1, Inl e)
         | (st1, Inr device) \<Rightarrow>
             let domain = classify (model_name device);
                 st2 = (if map_of (data entry) CONF_DOMAIN \<noteq> Some (PyStr domain)
                        then st1\<lparr>entries := async_update_entry (entries st1) i
                                   (AList.update CONF_DOMAIN (PyStr domain) (data entry))\<rparr>
                        else st1)
             in (st2\<lparr>tasks := tasks st2 @ [ForwardEntrySetup (entry_id entry) domain]\<rparr>,
                 Inr True)))"

definition async_entries_for_config_entry :: "device_entry list \<Rightarrow> nat \<Rightarrow> device_entry list" where
  \<comment> \<open>Modelled from the spec: this helper of the host's device registry is not among the
      source files; it lists the devices associated with the config entry.\<close>
  "async_entries_for_config_entry ds eid = filter (\<lambda>device. eid |\<in>| config_entries device) ds"

definition async_migrate_entry :: "hass \<Rightarrow> config_entry \<Rightarrow> hass \<times> bool" where
  "async_migrate_entry st entry =
     (if version entry = 1 then
        let device_entries = async_entries_for_config_entry (devices st) (entry_id entry) in
        (if list_all (\<lambda>device. fcard (config_entries device) > 1) device_entries
         then st\<lparr>tasks := tasks st @ [RemoveEntry (entry_id entry)]\<rparr>
         else st,
         False)
      else (st, True))"

section \<open>The config flow (\<^verbatim>\<open>config_flow.py\<close>)\<close>

datatype marker = Optional | Required

datatype flow_result =
    CreateEntry string config_type
  | Form string marker "(string \<times> string) list"
  | ShowConfirm string "(string \<times> string) list"
  | Abort string




definition async_set_unique_id :: "string \<Rightarrow> string option" where
  \<comment> \<open>Modelled from the spec: \<^verbatim>\<open>async_set_unique_id\<close> of the host's \<^verbatim>\<open>ConfigFlow\<close> is
      not among the source files; it makes the serial number the identity of the flow (the
      result is the handler's new \<^verbatim>\<open>unique_id\<close>).\<close>
  "async_set_unique_id uid = Some uid"

definition async_set_unique_id_and_update ::
  "hass \<Rightarrow> config_type \<Rightarrow> string \<Rightarrow> hass \<times> string option \<times> bool" where
  \<comment> \<open>\<^verbatim>\<open>_async_set_unique_id_and_update\<close>; the last component says whether the flow was
      aborted as already configured\<close>
  "async_set_unique_id_and_update st user_input uid =
     (let flow_uid = async_set_unique_id uid in
      case abort_if_unique_id_configured (entries st) uid user_input of
        Some es \<Rightarrow> (st\<lparr>entries := es\<rparr>, flow_uid, True)
      | None \<Rightarrow> (st, flow_uid, False))"

definition async_step_user ::
  "pywemo \<Rightarrow> hass \<Rightarrow> string option \<Rightarrow> config_type option
     \<Rightarrow> hass \<times> string option \<times> (error + flow_result)" where
  "async_step_user lib st flow_uid input =
     (let user_input = (case input of None \<Rightarrow> [] | Some d \<Rightarrow> d);
          data = dict_merge [(CONF_PORT, PyInt 0)] user_input
      in if user_input \<noteq> [] then
           (case async_get_wemo_device lib st data False of
              (st1, Inl (CannotDeterminePortError m)) \<Rightarrow>
                (st1, flow_uid,
                 Inr (Form STEP_ID_USER Required [(''base'', ERROR_CANNOT_DETERMINE_PORT)]))
            | (st1, Inl (ConnectError m cause)) \<Rightarrow>
                (st1, flow_uid, Inr (Form STEP_ID_USER Optional [(''base'', ERROR_CANNOT_CONNECT)]))
            | (st1, Inl e) \<Rightarrow> (st1, flow_uid, Inl e)
            | (st1, Inr device) \<Rightarrow>
                if flow_uid = None \<or> flow_uid = Some [] then
                  (case async_set_unique_id_and_update st1 user_input (serialnumber device) of
                     (st2, uid, True) \<Rightarrow> (st2, uid, Inr (Abort ''already_configured''))
                   | (st2, uid, False) \<Rightarrow>
                       (async_create_entry st2 uid (name device) data, uid,
                        Inr (CreateEntry (name device) data)))
                else
                  (async_create_entry st1 flow_uid (name device) data, flow_uid,
                   Inr (CreateEntry (name device) data)))
         else (st, flow_uid, Inr (Form STEP_ID_USER Optional [])))"



definition async_step_import ::
  "pywemo \<Rightarrow> hass \<Rightarrow> string option \<Rightarrow> config_type option
     \<Rightarrow> hass \<times> string option \<times> (error + flow_result)" where
  "async_step_import lib st flow_uid input = async_step_user lib st flow_uid input"

section \<open>Component setup and the pending tasks\<close>


fun run_task :: "pywemo \<Rightarrow> hass \<Rightarrow> task \<Rightarrow> hass" where
  \<comment> \<open>a started import flow runs \<^verbatim>\<open>async_step_import\<close> on a fresh handler; forwarding an
      entry to its platform is outside this model\<close>
  "run_task lib st (FlowInitImport d) = fst (async_step_import lib st None (Some d))"
| "run_task lib st (ForwardEntrySetup eid domain) = st"
| "run_task lib st (RemoveEntry eid) = async_remove st eid"

definition run_tasks :: "pywemo \<Rightarrow> hass \<Rightarrow> hass" where
  \<comment> \<open>the pending tasks run one after the other, in the order of their creation\<close>
  "run_tasks lib st = foldl (run_task lib) (st\<lparr>tasks := []\<rparr>) (tasks st)"

section \<open>Fixtures of the component's tests\<close>

text \<open>
  The constants of \<^verbatim>\<open>tests/components/wemo/conftest.py\<close> and the \<^verbatim>\<open>pywemo\<close> patches
  of the tests: \<open>pywemo_fixture\<close> answers every address with the mock device,
  \<open>pywemo_bad_port\<close> is the patch of \<^verbatim>\<open>test_get_wemo_device_bad_port\<close> (no setup URL)
  and \<open>pywemo_failed_connection\<close> the one of \<^verbatim>\<open>test_get_wemo_device_failed_connection\<close>.
\<close>

definition MOCK_HOST :: string where "MOCK_HOST = ''127.0.0.1''"
definition MOCK_PORT :: int where "MOCK_PORT = 50000"
definition MOCK_NAME :: string where "MOCK_NAME = ''WemoDeviceName''"
definition MOCK_SERIAL_NUMBER :: string where "MOCK_SERIAL_NUMBER = ''WemoSerialNumber''"
definition MOCK_URL :: string where "MOCK_URL = ''http://127.0.0.1:50000/setup.xml''"

definition MOCK_FLOW_DATA :: config_type where
  "MOCK_FLOW_DATA = [(CONF_HOST, PyStr MOCK_HOST), (CONF_PORT, PyInt MOCK_PORT)]"

definition pywemo_device :: wemo_device where
  "pywemo_device = \<lparr>name = MOCK_NAME, serialnumber = MOCK_SERIAL_NUMBER, model_name = ''Insight''\<rparr>"

definition pywemo_fixture :: pywemo where
  "pywemo_fixture =
     \<lparr>setup_url_for_address = (\<lambda>host port. Some MOCK_URL),
      device_from_description = (\<lambda>url. Inr pywemo_device)\<rparr>"

definition pywemo_bad_port :: pywemo where
  "pywemo_bad_port =
     \<lparr>setup_url_for_address = (\<lambda>host port. None),
      device_from_description = (\<lambda>url. Inr pywemo_device)\<rparr>"

definition pywemo_failed_connection :: pywemo where
  "pywemo_failed_connection =
     \<lparr>setup_url_for_address = (\<lambda>host port. Some MOCK_URL),
      device_from_description = (\<lambda>url. Inl (ConnectionError []))\<rparr>"

definition hass_empty :: hass where
  "hass_empty =
     \<lparr>entries = [], devices = [], pywemo_wemodevice_cache = Map.empty, tasks = [],
      calls = [], next_entry_id = 0, discovery_info = Map.empty\<rparr>"

text \<open>
  The stores of \<^verbatim>\<open>test_init.py\<close>: the version-1 entry shared by all devices, with a
  device that only it covers (\<^verbatim>\<open>test_v1_migration_keeps_old_integration\<close>), with a device
  that a version-2 entry covers as well (\<^verbatim>\<open>test_v1_migration_deletes_old_integration\<close>)
  and with no device at all; and the entry of \<^verbatim>\<open>test_static_config_update\<close>, stored
  under an address the device has left.
\<close>

definition v1_entry :: config_entry where
  "v1_entry = \<lparr>entry_id = 1, version = 1, unique_id = Some ''wemo'', title = MOCK_NAME, data = []\<rparr>"

definition v2_entry :: config_entry where
  "v2_entry =
     \<lparr>entry_id = 2, version = CONFIG_ENTRY_VERSION, unique_id = Some MOCK_SERIAL_NUMBER,
      title = MOCK_NAME, data = MOCK_FLOW_DATA @ [(CONF_DOMAIN, PyStr SWITCH_DOMAIN)]\<rparr>"

definition old_entry :: config_entry where
  "old_entry =
     \<lparr>entry_id = 3, version = CONFIG_ENTRY_VERSION, unique_id = Some MOCK_SERIAL_NUMBER,
      title = MOCK_NAME, data = [(CONF_HOST, PyStr ''old_host''), (CONF_PORT, PyInt 111)]\<rparr>"

definition hass_v1_in_use :: hass where
  "hass_v1_in_use =
     hass_empty\<lparr>entries := [v1_entry], devices := [\<lparr>config_entries = {|1|}\<rparr>]\<rparr>"

definition hass_v1_migrated :: hass where
  "hass_v1_migrated =
     hass_empty\<lparr>entries := [v1_entry, v2_entry], devices := [\<lparr>config_entries = {|1, 2|}\<rparr>]\<rparr>"

definition hass_v1_no_devices :: hass where
  "hass_v1_no_devices = hass_empty\<lparr>entries := [v1_entry]\<rparr>"

definition hass_old_entry :: hass where
  "hass_old_entry = hass_empty\<lparr>entries := [old_entry]\<rparr>"

section \<open>The store invariant and sequences of flows\<close>











section \<open>Auxiliary facts\<close>

lemma str_nat_digit: "n < 10 \<Longrightarrow> str_nat n = [''0123456789'' ! n]"
  by (subst str_nat.simps) simp

lemma str_nat_more:
  "10 \<le> n \<Longrightarrow> str_nat n = str_nat (n div 10) @ [''0123456789'' ! (n mod 10)]"
  by (subst str_nat.simps) simp

lemma dropWhile_no_colon:
  "CHR '':'' \<notin> set h \<Longrightarrow> dropWhile (\<lambda>c. c \<noteq> CHR '':'') (h @ r) = dropWhile (\<lambda>c. c \<noteq> CHR '':'') r"
  by (induction h) auto

lemma takeWhile_no_colon:
  "CHR '':'' \<notin> set h \<Longrightarrow> takeWhile (\<lambda>c. c \<noteq> CHR '':'') (h @ r) = h @ takeWhile (\<lambda>c. c \<noteq> CHR '':'') r"
  by (induction h) auto

lemma partition_colon_found:
  "CHR '':'' \<notin> set h \<Longrightarrow> partition_colon (h @ CHR '':'' # p) = (h, '':'', p)"
  by (simp add: partition_colon_def dropWhile_no_colon takeWhile_no_colon)

lemma partition_colon_absent:
  "CHR '':'' \<notin> set h \<Longrightarrow> partition_colon h = (h, [], [])"
proof -
  assume "CHR '':'' \<notin> set h"
  then have dw: "dropWhile (\<lambda>c. c \<noteq> CHR '':'') h = []"
    by (induction h) auto
  show ?thesis by (simp only: partition_colon_def dw list.case)
qed

lemma cv_port_50000: "cv_port ''50000'' = Inr 50000"
  by (simp add: cv_port_def digit_val_def)

lemma cache_key_mock: "cache_key (PyStr MOCK_HOST) (PyInt MOCK_PORT) = ''127.0.0.1:50000''"
  by (simp add: cache_key_def str_int_def str_nat_digit str_nat_more MOCK_HOST_def MOCK_PORT_def)

lemma async_get_wemo_device_miss:
  "map_of config_data CONF_HOST = Some host \<Longrightarrow> map_of config_data CONF_PORT = Some port \<Longrightarrow>
   pywemo_wemodevice_cache st (cache_key host port) = None \<Longrightarrow>
   snd (get_wemo_device lib host port) = Inr device \<Longrightarrow>
   async_get_wemo_device lib st config_data remove_cache =
     (st\<lparr>calls := calls st @ fst (get_wemo_device lib host port),
         pywemo_wemodevice_cache := (pywemo_wemodevice_cache st)(cache_key host port \<mapsto> device)\<rparr>,
      Inr device)"
  by (cases "get_wemo_device lib host port")
     (simp add: async_get_wemo_device_def Let_def fun_upd_idem)


lemma get_wemo_device_fixture:
  "get_wemo_device pywemo_fixture host port =
     ([SetupUrlForAddress host port, DeviceFromDescription MOCK_URL], Inr pywemo_device)"
  by (simp add: get_wemo_device_def pywemo_fixture_def)

lemma run_tasks_nothing: "tasks st = [] \<Longrightarrow> entries (run_tasks lib st) = entries st"
  by (simp add: run_tasks_def)

lemma run_tasks_remove:
  "tasks st = [RemoveEntry eid] \<Longrightarrow>
   entries (run_tasks lib st) = filter (\<lambda>e. entry_id e \<noteq> eid) (entries st)"
  by (simp add: run_tasks_def async_remove_def)

lemma all_migrated_iff:
  "list_all (\<lambda>device. 1 < fcard (config_entries device)) (async_entries_for_config_entry ds eid) =
   (\<forall>device\<in>set ds. eid |\<in>| config_entries device \<longrightarrow> 1 < fcard (config_entries device))"
  by (auto simp add: async_entries_for_config_entry_def list_all_iff)

lemma async_get_wemo_device_frame:
  "entries (fst (async_get_wemo_device lib st config_data remove_cache)) = entries st
   \<and> devices (fst (async_get_wemo_device lib st config_data remove_cache)) = devices st
   \<and> tasks (fst (async_get_wemo_device lib st config_data remove_cache)) = tasks st
   \<and> next_entry_id (fst (async_get_wemo_device lib st config_data remove_cache)) = next_entry_id st"
  by (simp add: async_get_wemo_device_def Let_def split: option.split sum.split prod.split)

lemma map_of_update_other:
  "k \<noteq> k' \<Longrightarrow> map_of (AList.update k' v al) k = map_of al k"
  by (simp add: update_conv')

lemma old_entry_resolves:
  "async_get_wemo_device pywemo_fixture hass_old_entry (data (entries hass_old_entry ! 0)) False =
     (hass_old_entry
        \<lparr>calls := [SetupUrlForAddress (PyStr ''old_host'') (PyInt 111), DeviceFromDescription MOCK_URL],
         pywemo_wemodevice_cache :=
           [cache_key (PyStr ''old_host'') (PyInt 111) \<mapsto> pywemo_device]\<rparr>,
      Inr pywemo_device)"
proof -
  have d: "data (entries hass_old_entry ! 0) = [(CONF_HOST, PyStr ''old_host''), (CONF_PORT, PyInt 111)]"
    by (simp add: hass_old_entry_def old_entry_def)
  have h: "map_of (data (entries hass_old_entry ! 0)) CONF_HOST = Some (PyStr ''old_host'')"
    and p: "map_of (data (entries hass_old_entry ! 0)) CONF_PORT = Some (PyInt 111)"
    by (simp_all add: d const_defs)
  have c: "pywemo_wemodevice_cache hass_old_entry (cache_key (PyStr ''old_host'') (PyInt 111)) = None"
    by (simp add: hass_old_entry_def hass_empty_def)
  have g: "snd (get_wemo_device pywemo_fixture (PyStr ''old_host'') (PyInt 111)) = Inr pywemo_device"
    by (simp add: get_wemo_device_fixture)
  show ?thesis
    unfolding async_get_wemo_device_miss [OF h p c g]
    by (simp add: get_wemo_device_fixture hass_old_entry_def hass_empty_def)
qed









































section \<open>The claims\<close>

text \<open>
  C6. The classification of a model name is a total function from strings to the four
  categories \<^verbatim>\<open>binary_sensor\<close>, \<^verbatim>\<open>fan\<close>, \<^verbatim>\<open>light\<close> and \<^verbatim>\<open>switch\<close>: it returns one of
  them for every string, every string outside the table of ten names gives \<^verbatim>\<open>switch\<close>,
  and \<^verbatim>\<open>Humidifier\<close> gives \<^verbatim>\<open>fan\<close>.
\<close>

theorem classify_total:
  "classify m \<in> {BINARY_SENSOR_DOMAIN, FAN_DOMAIN, LIGHT_DOMAIN, SWITCH_DOMAIN}
   \<and> (m \<notin> fst ` set WEMO_MODEL_DISPATCH \<longrightarrow> classify m = SWITCH_DOMAIN)
   \<and> length WEMO_MODEL_DISPATCH = 10
   \<and> distinct (map fst WEMO_MODEL_DISPATCH)
   \<and> classify ''Humidifier'' = FAN_DOMAIN"
  by (simp add: classify_def WEMO_MODEL_DISPATCH_def)

theorem classify_total_witness:
  "''Toaster'' \<notin> fst ` set WEMO_MODEL_DISPATCH \<and> classify ''Toaster'' = SWITCH_DOMAIN
   \<and> classify ''Toaster'' = ''switch''"
  using classify_total [of "''Toaster''"]
  by (simp add: WEMO_MODEL_DISPATCH_def SWITCH_DOMAIN_def)

text \<open>
  C9. \<^verbatim>\<open>coerce_host_port\<close> splits an entry at its first colon. A host followed by a colon
  and a port text gives the host and whatever the port validator makes of the port text
  (its rejection rejects the entry); a host alone, or with nothing after its colon, gives
  port 0; an entry with an empty host is rejected with \<^verbatim>\<open>Invalid\<close>, and rejects the
  static list it stands in. The function has no access to the state or to \<^verbatim>\<open>pywemo\<close>, so
  the rejection comes before any network call. \<^verbatim>\<open>127.0.0.1:50000\<close> gives host
  \<^verbatim>\<open>127.0.0.1\<close> and port 50000.
\<close>

theorem coerce_host_port_parses:
  "(CHR '':'' \<notin> set h \<and> h \<noteq> [] \<and> p \<noteq> [] \<longrightarrow>
      coerce_host_port pv (h @ CHR '':'' # p) =
        (case pv p of Inl e \<Rightarrow> Inl e | Inr n \<Rightarrow> Inr (h, n)))
   \<and> (CHR '':'' \<notin> set h \<and> h \<noteq> [] \<longrightarrow>
        coerce_host_port pv h = Inr (h, 0) \<and> coerce_host_port pv (h @ '':'') = Inr (h, 0))
   \<and> coerce_host_port pv [] = Inl (Invalid ''host cannot be empty'')
   \<and> coerce_host_port pv (CHR '':'' # p) = Inl (Invalid ''host cannot be empty'')
   \<and> CONFIG_SCHEMA pv ([] # vs) = Inl (Invalid ''host cannot be empty'')
   \<and> coerce_host_port cv_port ''127.0.0.1:50000'' = Inr (''127.0.0.1'', 50000)"
proof -
  have found: "coerce_host_port pv (h @ CHR '':'' # p) =
        (case pv p of Inl e \<Rightarrow> Inl e | Inr n \<Rightarrow> Inr (h, n))"
    if "CHR '':'' \<notin> set h" "h \<noteq> []" "p \<noteq> []"
    using that by (simp add: coerce_host_port_def partition_colon_found)
  have bare: "coerce_host_port pv h = Inr (h, 0)" if "CHR '':'' \<notin> set h" "h \<noteq> []"
    using that by (simp add: coerce_host_port_def partition_colon_absent)
  have trailing: "coerce_host_port pv (h @ '':'') = Inr (h, 0)"
    if "CHR '':'' \<notin> set h" "h \<noteq> []"
    using that by (simp add: coerce_host_port_def partition_colon_found)
  have empty1: "coerce_host_port pv [] = Inl (Invalid ''host cannot be empty'')"
    by (simp add: coerce_host_port_def partition_colon_def)
  have empty2: "coerce_host_port pv (CHR '':'' # p) = Inl (Invalid ''host cannot be empty'')"
    by (simp add: coerce_host_port_def partition_colon_def)
  have schema: "CONFIG_SCHEMA pv ([] # vs) = Inl (Invalid ''host cannot be empty'')"
    by (simp add: empty1)
  have example: "coerce_host_port cv_port ''127.0.0.1:50000'' = Inr (''127.0.0.1'', 50000)"
    by (simp add: coerce_host_port_def partition_colon_def cv_port_def digit_val_def)
  from found bare trailing empty1 empty2 schema example show ?thesis by blast
qed

theorem coerce_host_port_parses_witness:
  "CHR '':'' \<notin> set ''127.0.0.1'' \<and> ''127.0.0.1'' \<noteq> [] \<and> ''50000'' \<noteq> []
   \<and> coerce_host_port cv_port (''127.0.0.1'' @ CHR '':'' # ''50000'') = Inr (''127.0.0.1'', 50000)
   \<and> coerce_host_port cv_port ''127.0.0.1'' = Inr (''127.0.0.1'', 0)
   \<and> coerce_host_port cv_port ''127.0.0.1:'' = Inr (''127.0.0.1'', 0)"
  using coerce_host_port_parses [of "''127.0.0.1''" "''50000''" cv_port]
  by (simp add: cv_port_50000)







text \<open>
  C1. Migrating a version-1 entry always returns \<^verbatim>\<open>False\<close>. It schedules the removal of
  the entry if every device associated with the entry is associated with more than one
  config entry (the old one and a new one), and changes nothing if some associated device
  is associated with this entry alone. Once the scheduled tasks have run, the entry is
  gone from the store exactly in the first case.
\<close>

theorem async_migrate_entry_version_1:
  "version entry = 1 \<longrightarrow>
     snd (async_migrate_entry st entry) = False
   \<and> ((\<forall>device\<in>set (devices st).
          entry_id entry |\<in>| config_entries device \<longrightarrow> 1 < fcard (config_entries device)) \<longrightarrow>
        fst (async_migrate_entry st entry) = st\<lparr>tasks := tasks st @ [RemoveEntry (entry_id entry)]\<rparr>)
   \<and> ((\<exists>device\<in>set (devices st).
          entry_id entry |\<in>| config_entries device \<and> fcard (config_entries device) \<le> 1) \<longrightarrow>
        fst (async_migrate_entry st entry) = st)
   \<and> (tasks st = [] \<and> entry \<in> set (entries st) \<longrightarrow>
        (entry \<notin> set (entries (run_tasks lib (fst (async_migrate_entry st entry))))) =
        (\<forall>device\<in>set (devices st).
           entry_id entry |\<in>| config_entries device \<longrightarrow> 1 < fcard (config_entries device)))"
proof (intro impI)
  assume v: "version entry = 1"
  let ?all = "\<forall>device\<in>set (devices st).
      entry_id entry |\<in>| config_entries device \<longrightarrow> 1 < fcard (config_entries device)"
  have ret: "snd (async_migrate_entry st entry) = False"
    using v by (simp add: async_migrate_entry_def Let_def)
  have sup: "fst (async_migrate_entry st entry) = st\<lparr>tasks := tasks st @ [RemoveEntry (entry_id entry)]\<rparr>"
    if ?all
    using v that unfolding async_migrate_entry_def Let_def all_migrated_iff by simp
  have keep: "fst (async_migrate_entry st entry) = st" if "\<not> ?all"
    using v that unfolding async_migrate_entry_def Let_def all_migrated_iff by simp
  have gone: "(entry \<notin> set (entries (run_tasks lib (fst (async_migrate_entry st entry))))) = ?all"
    if t: "tasks st = []" and m: "entry \<in> set (entries st)"
  proof (cases ?all)
    case True
    then show ?thesis
      using t by (simp add: sup [OF True] run_tasks_remove)
  next
    case False
    then show ?thesis
      using t m by (simp add: keep [OF False] run_tasks_nothing)
  qed
  have keep': "fst (async_migrate_entry st entry) = st"
    if "\<exists>device\<in>set (devices st).
          entry_id entry |\<in>| config_entries device \<and> fcard (config_entries device) \<le> 1"
    using that by (intro keep) (auto simp add: not_less)
  from ret sup keep' gone show
    "snd (async_migrate_entry st entry) = False
   \<and> (?all \<longrightarrow>
        fst (async_migrate_entry st entry) = st\<lparr>tasks := tasks st @ [RemoveEntry (entry_id entry)]\<rparr>)
   \<and> ((\<exists>device\<in>set (devices st).
          entry_id entry |\<in>| config_entries device \<and> fcard (config_entries device) \<le> 1) \<longrightarrow>
        fst (async_migrate_entry st entry) = st)
   \<and> (tasks st = [] \<and> entry \<in> set (entries st) \<longrightarrow>
        (entry \<notin> set (entries (run_tasks lib (fst (async_migrate_entry st entry))))) = ?all)"
    by blast
qed

theorem async_migrate_entry_version_1_witness:
  "version v1_entry = 1
   \<and> (\<exists>device\<in>set (devices hass_v1_in_use).
         entry_id v1_entry |\<in>| config_entries device \<and> fcard (config_entries device) \<le> 1)
   \<and> tasks hass_v1_in_use = [] \<and> v1_entry \<in> set (entries hass_v1_in_use)
   \<and> async_migrate_entry hass_v1_in_use v1_entry = (hass_v1_in_use, False)
   \<and> v1_entry \<in> set (entries (run_tasks pywemo_fixture (fst (async_migrate_entry hass_v1_in_use v1_entry))))
   \<and> list_all (\<lambda>device. 1 < fcard (config_entries device))
        (async_entries_for_config_entry (devices hass_v1_migrated) (entry_id v1_entry))
   \<and> tasks hass_v1_migrated = [] \<and> v1_entry \<in> set (entries hass_v1_migrated)
   \<and> async_migrate_entry hass_v1_migrated v1_entry =
        (hass_v1_migrated\<lparr>tasks := [RemoveEntry 1]\<rparr>, False)
   \<and> v1_entry \<notin> set (entries (run_tasks pywemo_fixture (fst (async_migrate_entry hass_v1_migrated v1_entry))))"
proof -
  have a: "version v1_entry = 1" "entry_id v1_entry = 1"
    by (simp_all add: v1_entry_def)
  have b: "\<exists>device\<in>set (devices hass_v1_in_use).
         entry_id v1_entry |\<in>| config_entries device \<and> fcard (config_entries device) \<le> 1"
    by (simp add: hass_v1_in_use_def hass_empty_def a fcard_finsert_if)
  have c: "tasks hass_v1_in_use = []" "v1_entry \<in> set (entries hass_v1_in_use)"
    by (simp_all add: hass_v1_in_use_def hass_empty_def)
  have d: "\<forall>device\<in>set (devices hass_v1_migrated).
         entry_id v1_entry |\<in>| config_entries device \<longrightarrow> 1 < fcard (config_entries device)"
    by (simp add: hass_v1_migrated_def hass_empty_def a fcard_finsert_if)
  have e: "tasks hass_v1_migrated = []" "v1_entry \<in> set (entries hass_v1_migrated)"
    by (simp_all add: hass_v1_migrated_def hass_empty_def)
  have nb: "\<not> (\<forall>device\<in>set (devices hass_v1_in_use).
         entry_id v1_entry |\<in>| config_entries device \<longrightarrow> 1 < fcard (config_entries device))"
    using b by (auto simp add: not_less)
  note k = async_migrate_entry_version_1 [of v1_entry hass_v1_in_use pywemo_fixture]
  note k' = async_migrate_entry_version_1 [of v1_entry hass_v1_migrated pywemo_fixture]
  have keep_fst: "fst (async_migrate_entry hass_v1_in_use v1_entry) = hass_v1_in_use"
    using k a(1) b by blast
  have keep_snd: "snd (async_migrate_entry hass_v1_in_use v1_entry) = False"
    using k a(1) by blast
  have keep_pair: "async_migrate_entry hass_v1_in_use v1_entry = (hass_v1_in_use, False)"
    using keep_fst keep_snd by (simp add: prod_eq_iff)
  have keep_in:
    "v1_entry \<in> set (entries (run_tasks pywemo_fixture (fst (async_migrate_entry hass_v1_in_use v1_entry))))"
    using k a(1) c nb by blast
  have sup_fst: "fst (async_migrate_entry hass_v1_migrated v1_entry) =
      hass_v1_migrated\<lparr>tasks := tasks hass_v1_migrated @ [RemoveEntry (entry_id v1_entry)]\<rparr>"
    using k' a(1) d by blast
  have sup_snd: "snd (async_migrate_entry hass_v1_migrated v1_entry) = False"
    using k' a(1) by blast
  have sup_pair: "async_migrate_entry hass_v1_migrated v1_entry =
      (hass_v1_migrated\<lparr>tasks := [RemoveEntry 1]\<rparr>, False)"
    using sup_fst sup_snd e(1) a(2) by (simp add: prod_eq_iff)
  have sup_out:
    "v1_entry \<notin> set (entries (run_tasks pywemo_fixture (fst (async_migrate_entry hass_v1_migrated v1_entry))))"
    using k' a(1) e d by blast
  have d': "list_all (\<lambda>device. 1 < fcard (config_entries device))
      (async_entries_for_config_entry (devices hass_v1_migrated) (entry_id v1_entry))"
    unfolding all_migrated_iff using d .
  show ?thesis
    using a(1) b c keep_pair keep_in d' e sup_pair sup_out by blast
qed

text \<open>
  C10. A version-1 entry with no associated device is treated as superseded: the check
  over its devices holds vacuously, the removal is scheduled, and the entry is gone once
  the task has run.
\<close>

theorem async_migrate_entry_no_devices:
  "version entry = 1 \<and> async_entries_for_config_entry (devices st) (entry_id entry) = [] \<longrightarrow>
     async_migrate_entry st entry = (st\<lparr>tasks := tasks st @ [RemoveEntry (entry_id entry)]\<rparr>, False)
   \<and> (tasks st = [] \<longrightarrow>
        entry \<notin> set (entries (run_tasks lib (fst (async_migrate_entry st entry)))))"
proof (intro impI, elim conjE)
  assume v: "version entry = 1"
    and n: "async_entries_for_config_entry (devices st) (entry_id entry) = []"
  have m: "async_migrate_entry st entry =
      (st\<lparr>tasks := tasks st @ [RemoveEntry (entry_id entry)]\<rparr>, False)"
    using v n by (simp add: async_migrate_entry_def)
  have "entry \<notin> set (entries (run_tasks lib (fst (async_migrate_entry st entry))))"
    if "tasks st = []"
    using that by (simp add: m run_tasks_remove)
  with m show "async_migrate_entry st entry =
      (st\<lparr>tasks := tasks st @ [RemoveEntry (entry_id entry)]\<rparr>, False)
   \<and> (tasks st = [] \<longrightarrow>
        entry \<notin> set (entries (run_tasks lib (fst (async_migrate_entry st entry)))))"
    by blast
qed

theorem async_migrate_entry_no_devices_witness:
  "version v1_entry = 1
   \<and> async_entries_for_config_entry (devices hass_v1_no_devices) (entry_id v1_entry) = []
   \<and> tasks hass_v1_no_devices = []
   \<and> async_migrate_entry hass_v1_no_devices v1_entry =
       (hass_v1_no_devices\<lparr>tasks := [RemoveEntry 1]\<rparr>, False)
   \<and> entries (run_tasks pywemo_fixture (fst (async_migrate_entry hass_v1_no_devices v1_entry))) = []"
proof -
  have a: "version v1_entry = 1" "entry_id v1_entry = 1"
    by (simp_all add: v1_entry_def)
  have b: "async_entries_for_config_entry (devices hass_v1_no_devices) (entry_id v1_entry) = []"
    by (simp add: hass_v1_no_devices_def hass_empty_def async_entries_for_config_entry_def)
  have c: "tasks hass_v1_no_devices = []" "entries hass_v1_no_devices = [v1_entry]"
    by (simp_all add: hass_v1_no_devices_def hass_empty_def)
  show ?thesis
    using async_migrate_entry_no_devices [of v1_entry hass_v1_no_devices pywemo_fixture] a b c
    by (simp add: run_tasks_remove)
qed

text \<open>
  C4 as stated does not hold: the claim says that the resolver fails with
  \<^verbatim>\<open>CannotDeterminePortError\<close> exactly when no port was supplied. The resolver does not
  look at the port: it fails so whenever \<^verbatim>\<open>pywemo.setup_url_for_address\<close> answers
  \<^verbatim>\<open>None\<close>. With the patch of \<^verbatim>\<open>test_get_wemo_device_bad_port\<close> and port 50000 the
  error is raised although a port was supplied, and its message names the port.
\<close>

theorem get_wemo_device_port_supplied_counterexample:
  "get_wemo_device pywemo_bad_port (PyStr MOCK_HOST) (PyInt MOCK_PORT) =
     ([SetupUrlForAddress (PyStr MOCK_HOST) (PyInt MOCK_PORT)],
      Inl (CannotDeterminePortError ''Unable to get description url for WeMo at: 127.0.0.1:50000''))
   \<and> PyInt MOCK_PORT \<noteq> PyInt 0"
  using cache_key_mock
  by (simp add: get_wemo_device_def pywemo_bad_port_def cache_key_def) (simp add: MOCK_PORT_def)

text \<open>
  C4, amended. For every host and every port, supplied or 0: when the setup-URL derivation
  yields no URL, the resolver fails with \<^verbatim>\<open>CannotDeterminePortError\<close> after the one call
  to \<^verbatim>\<open>setup_url_for_address\<close>, without attempting the description fetch; and it fails
  with this error exactly when the derivation yields no URL.
\<close>

theorem get_wemo_device_no_url:
  "(setup_url_for_address lib host port = None \<longrightarrow>
      get_wemo_device lib host port =
        ([SetupUrlForAddress host port],
         Inl (CannotDeterminePortError
                (''Unable to get description url for WeMo at: '' @
                 (if truthy port then format host @ '':'' @ format port else format host)))))
   \<and> (is_CannotDeterminePortError (snd (get_wemo_device lib host port)) =
        (setup_url_for_address lib host port = None))"
proof (cases "setup_url_for_address lib host port")
  case None
  then show ?thesis by (simp add: get_wemo_device_def)
next
  case (Some url)
  then show ?thesis
    by (simp add: get_wemo_device_def split: sum.split requests_exception.split)
qed

theorem get_wemo_device_no_url_witness:
  "setup_url_for_address pywemo_bad_port (PyStr MOCK_HOST) (PyInt 0) = None
   \<and> get_wemo_device pywemo_bad_port (PyStr MOCK_HOST) (PyInt 0) =
       ([SetupUrlForAddress (PyStr MOCK_HOST) (PyInt 0)],
        Inl (CannotDeterminePortError ''Unable to get description url for WeMo at: 127.0.0.1''))"
  using get_wemo_device_no_url [of pywemo_bad_port "PyStr MOCK_HOST" "PyInt 0"]
  by (simp add: pywemo_bad_port_def MOCK_HOST_def)

text \<open>
  C5. When the description fetch at the derived URL raises a \<^verbatim>\<open>requests\<close> connection
  error or timeout, the resolver fails with \<^verbatim>\<open>ConnectError\<close>, whose message quotes the
  URL and the failure and whose cause is the transport error itself; through
  \<^verbatim>\<open>async_get_wemo_device\<close> the same error reaches the caller and nothing is cached.
\<close>

theorem get_wemo_device_connect_error:
  "setup_url_for_address lib host port = Some url \<and>
   device_from_description lib url = Inl e \<and> (e = ConnectionError m \<or> e = Timeout m) \<longrightarrow>
     get_wemo_device lib host port =
       ([SetupUrlForAddress host port, DeviceFromDescription url],
        Inl (ConnectError (''Unable to access WeMo at '' @ url @ '' ('' @ m @ '')'') e))
     \<and> (map_of config_data CONF_HOST = Some host \<and> map_of config_data CONF_PORT = Some port \<and>
          pywemo_wemodevice_cache st (cache_key host port) = None \<longrightarrow>
          snd (async_get_wemo_device lib st config_data remove_cache) =
            Inl (ConnectError (''Unable to access WeMo at '' @ url @ '' ('' @ m @ '')'') e)
          \<and> pywemo_wemodevice_cache (fst (async_get_wemo_device lib st config_data remove_cache)) =
              pywemo_wemodevice_cache st)"
proof (intro impI conjI; (elim conjE)?)
  assume a: "setup_url_for_address lib host port = Some url"
    "device_from_description lib url = Inl e" "e = ConnectionError m \<or> e = Timeout m"
  show g: "get_wemo_device lib host port =
       ([SetupUrlForAddress host port, DeviceFromDescription url],
        Inl (ConnectError (''Unable to access WeMo at '' @ url @ '' ('' @ m @ '')'') e))"
    using a by (auto simp add: get_wemo_device_def)
  assume b: "map_of config_data CONF_HOST = Some host" "map_of config_data CONF_PORT = Some port"
    "pywemo_wemodevice_cache st (cache_key host port) = None"
  have idem: "(pywemo_wemodevice_cache st)(cache_key host port := None) = pywemo_wemodevice_cache st"
    using b(3) by (simp add: fun_upd_idem)
  show "snd (async_get_wemo_device lib st config_data remove_cache) =
            Inl (ConnectError (''Unable to access WeMo at '' @ url @ '' ('' @ m @ '')'') e)"
    using b g by (simp add: async_get_wemo_device_def Let_def)
  show "pywemo_wemodevice_cache (fst (async_get_wemo_device lib st config_data remove_cache)) =
              pywemo_wemodevice_cache st"
    using b g idem by (simp add: async_get_wemo_device_def Let_def)
qed

theorem get_wemo_device_connect_error_witness:
  "setup_url_for_address pywemo_failed_connection (PyStr MOCK_HOST) (PyInt MOCK_PORT) = Some MOCK_URL
   \<and> device_from_description pywemo_failed_connection MOCK_URL = Inl (ConnectionError [])
   \<and> map_of MOCK_FLOW_DATA CONF_HOST = Some (PyStr MOCK_HOST)
   \<and> map_of MOCK_FLOW_DATA CONF_PORT = Some (PyInt MOCK_PORT)
   \<and> pywemo_wemodevice_cache hass_empty (cache_key (PyStr MOCK_HOST) (PyInt MOCK_PORT)) = None
   \<and> snd (async_get_wemo_device pywemo_failed_connection hass_empty MOCK_FLOW_DATA False) =
       Inl (ConnectError (''Unable to access WeMo at '' @ MOCK_URL @ '' ()'') (ConnectionError []))"
  using get_wemo_device_connect_error [of pywemo_failed_connection "PyStr MOCK_HOST"
      "PyInt MOCK_PORT" MOCK_URL "ConnectionError []" "[]" MOCK_FLOW_DATA hass_empty False]
  by (simp add: pywemo_failed_connection_def MOCK_FLOW_DATA_def hass_empty_def const_defs)

text \<open>
  C7 fails on a cache miss. With an empty cache, \<^verbatim>\<open>remove_cache=True\<close> and a device that
  resolves, \<^verbatim>\<open>async_get_wemo_device\<close> returns the device and stores it under
  \<^verbatim>\<open>127.0.0.1:50000\<close>: after the take-based resolution the entry is in the cache. (On a hit
  the take variant does remove the entry, see \<open>async_get_wemo_device_hit\<close>, and a
  successful resolution stores the handle under the key, see
  \<open>async_get_wemo_device_miss\<close>.)
\<close>

theorem async_get_wemo_device_take_miss_leaves_entry:
  "snd (async_get_wemo_device pywemo_fixture hass_empty MOCK_FLOW_DATA True) = Inr pywemo_device
   \<and> pywemo_wemodevice_cache hass_empty ''127.0.0.1:50000'' = None
   \<and> pywemo_wemodevice_cache
        (fst (async_get_wemo_device pywemo_fixture hass_empty MOCK_FLOW_DATA True))
        ''127.0.0.1:50000'' = Some pywemo_device"
proof -
  have h: "map_of MOCK_FLOW_DATA CONF_HOST = Some (PyStr MOCK_HOST)"
    and p: "map_of MOCK_FLOW_DATA CONF_PORT = Some (PyInt MOCK_PORT)"
    by (simp_all add: MOCK_FLOW_DATA_def const_defs)
  have c: "pywemo_wemodevice_cache hass_empty (cache_key (PyStr MOCK_HOST) (PyInt MOCK_PORT)) = None"
    by (simp add: hass_empty_def)
  have g: "snd (get_wemo_device pywemo_fixture (PyStr MOCK_HOST) (PyInt MOCK_PORT)) = Inr pywemo_device"
    by (simp add: get_wemo_device_fixture)
  show ?thesis
    unfolding async_get_wemo_device_miss [OF h p c g]
    by (simp add: cache_key_mock) (simp add: hass_empty_def)
qed

text \<open>
  C8. Setting up a stored entry whose device resolves leaves the store with the same
  number of records, every other record as it was, and the entry's identifier, version,
  unique id and title as they were; afterwards the entry's \<^verbatim>\<open>domain\<close> is the category
  classified from the device's model name, and every other key of its data (host and port
  among them) has the value it had. When the stored category already agrees, the store is
  not written at all.
\<close>

theorem async_setup_entry_updates_domain:
  "i < length (entries st) \<and>
   async_get_wemo_device lib st (data (entries st ! i)) False = (st1, Inr device) \<longrightarrow>
     snd (async_setup_entry lib st i) = Inr True
   \<and> length (entries (fst (async_setup_entry lib st i))) = length (entries st)
   \<and> (\<forall>j. j \<noteq> i \<longrightarrow> entries (fst (async_setup_entry lib st i)) ! j = entries st ! j)
   \<and> entry_id (entries (fst (async_setup_entry lib st i)) ! i) = entry_id (entries st ! i)
   \<and> version (entries (fst (async_setup_entry lib st i)) ! i) = version (entries st ! i)
   \<and> unique_id (entries (fst (async_setup_entry lib st i)) ! i) = unique_id (entries st ! i)
   \<and> title (entries (fst (async_setup_entry lib st i)) ! i) = title (entries st ! i)
   \<and> map_of (data (entries (fst (async_setup_entry lib st i)) ! i)) CONF_DOMAIN =
       Some (PyStr (classify (model_name device)))
   \<and> (\<forall>k. k \<noteq> CONF_DOMAIN \<longrightarrow>
         map_of (data (entries (fst (async_setup_entry lib st i)) ! i)) k =
         map_of (data (entries st ! i)) k)
   \<and> (map_of (data (entries st ! i)) CONF_DOMAIN = Some (PyStr (classify (model_name device))) \<longrightarrow>
        entries (fst (async_setup_entry lib st i)) = entries st)"
proof (intro impI, elim conjE)
  assume i: "i < length (entries st)"
    and r: "async_get_wemo_device lib st (data (entries st ! i)) False = (st1, Inr device)"
  let ?e = "entries st ! i"
  let ?d = "classify (model_name device)"
  let ?st' = "fst (async_setup_entry lib st i)"
  have e1: "entries st1 = entries st"
    using async_get_wemo_device_frame [of lib st "data ?e" False] r by simp
  have es: "entries ?st' =
      (if map_of (data ?e) CONF_DOMAIN \<noteq> Some (PyStr ?d)
       then (entries st)[i := ?e\<lparr>data := AList.update CONF_DOMAIN (PyStr ?d) (data ?e)\<rparr>]
       else entries st)"
    using i r e1 by (simp add: async_setup_entry_def Let_def async_update_entry_def)
  have ret: "snd (async_setup_entry lib st i) = Inr True"
    using i r by (simp add: async_setup_entry_def Let_def)
  have len: "length (entries ?st') = length (entries st)"
    by (simp add: es)
  have others: "\<forall>j. j \<noteq> i \<longrightarrow> entries ?st' ! j = entries st ! j"
    by (simp add: es)
  have ith: "entries ?st' ! i =
      (if map_of (data ?e) CONF_DOMAIN \<noteq> Some (PyStr ?d)
       then ?e\<lparr>data := AList.update CONF_DOMAIN (PyStr ?d) (data ?e)\<rparr> else ?e)"
    using i by (simp add: es)
  have f1: "entry_id (entries ?st' ! i) = entry_id ?e" by (simp add: ith)
  have f2: "version (entries ?st' ! i) = version ?e" by (simp add: ith)
  have f3: "unique_id (entries ?st' ! i) = unique_id ?e" by (simp add: ith)
  have f4: "title (entries ?st' ! i) = title ?e" by (simp add: ith)
  have dom: "map_of (data (entries ?st' ! i)) CONF_DOMAIN = Some (PyStr ?d)"
    by (simp add: ith update_conv')
  have rest: "\<forall>k. k \<noteq> CONF_DOMAIN \<longrightarrow>
      map_of (data (entries ?st' ! i)) k = map_of (data ?e) k"
    by (simp add: ith map_of_update_other)
  have same: "map_of (data ?e) CONF_DOMAIN = Some (PyStr ?d) \<longrightarrow> entries ?st' = entries st"
    by (simp add: es)
  from ret len others f1 f2 f3 f4 dom rest same show
    "snd (async_setup_entry lib st i) = Inr True
   \<and> length (entries ?st') = length (entries st)
   \<and> (\<forall>j. j \<noteq> i \<longrightarrow> entries ?st' ! j = entries st ! j)
   \<and> entry_id (entries ?st' ! i) = entry_id ?e
   \<and> version (entries ?st' ! i) = version ?e
   \<and> unique_id (entries ?st' ! i) = unique_id ?e
   \<and> title (entries ?st' ! i) = title ?e
   \<and> map_of (data (entries ?st' ! i)) CONF_DOMAIN = Some (PyStr ?d)
   \<and> (\<forall>k. k \<noteq> CONF_DOMAIN \<longrightarrow> map_of (data (entries ?st' ! i)) k = map_of (data ?e) k)
   \<and> (map_of (data ?e) CONF_DOMAIN = Some (PyStr ?d) \<longrightarrow> entries ?st' = entries st)"
    by blast
qed

theorem async_setup_entry_updates_domain_witness:
  "0 < length (entries hass_old_entry)
   \<and> snd (async_get_wemo_device pywemo_fixture hass_old_entry (data (entries hass_old_entry ! 0)) False)
       = Inr pywemo_device
   \<and> map_of (data (entries hass_old_entry ! 0)) CONF_DOMAIN = None
   \<and> snd (async_setup_entry pywemo_fixture hass_old_entry 0) = Inr True
   \<and> length (entries (fst (async_setup_entry pywemo_fixture hass_old_entry 0))) = 1
   \<and> map_of (data (entries (fst (async_setup_entry pywemo_fixture hass_old_entry 0)) ! 0)) CONF_DOMAIN
       = Some (PyStr ''switch'')
   \<and> map_of (data (entries (fst (async_setup_entry pywemo_fixture hass_old_entry 0)) ! 0)) CONF_HOST
       = Some (PyStr ''old_host'')
   \<and> map_of (data (entries (fst (async_setup_entry pywemo_fixture hass_old_entry 0)) ! 0)) CONF_PORT
       = Some (PyInt 111)
   \<and> unique_id (entries (fst (async_setup_entry pywemo_fixture hass_old_entry 0)) ! 0)
       = Some MOCK_SERIAL_NUMBER"
proof -
  have l: "0 < length (entries hass_old_entry)" "length (entries hass_old_entry) = 1"
    by (simp_all add: hass_old_entry_def)
  have d: "data (entries hass_old_entry ! 0) = [(CONF_HOST, PyStr ''old_host''), (CONF_PORT, PyInt 111)]"
    "unique_id (entries hass_old_entry ! 0) = Some MOCK_SERIAL_NUMBER"
    by (simp_all add: hass_old_entry_def old_entry_def)
  have c: "classify (model_name pywemo_device) = ''switch''"
    by (simp add: pywemo_device_def classify_def WEMO_MODEL_DISPATCH_def SWITCH_DOMAIN_def)
  have ne: "CONF_HOST \<noteq> CONF_DOMAIN" "CONF_PORT \<noteq> CONF_DOMAIN"
    by (simp_all add: const_defs)
  note k = async_setup_entry_updates_domain [THEN mp, OF conjI [OF l(1) old_entry_resolves]]
  let ?st' = "fst (async_setup_entry pywemo_fixture hass_old_entry 0)"
  have r: "snd (async_get_wemo_device pywemo_fixture hass_old_entry
      (data (entries hass_old_entry ! 0)) False) = Inr pywemo_device"
    by (simp add: old_entry_resolves)
  have nd: "map_of (data (entries hass_old_entry ! 0)) CONF_DOMAIN = None"
    by (simp add: d const_defs)
  have k1: "snd (async_setup_entry pywemo_fixture hass_old_entry 0) = Inr True"
    using k by blast
  have "length (entries ?st') = length (entries hass_old_entry)"
    using k by blast
  then have k2: "length (entries ?st') = 1"
    by (simp add: l(2))
  have "map_of (data (entries ?st' ! 0)) CONF_DOMAIN = Some (PyStr (classify (model_name pywemo_device)))"
    using k by blast
  then have k3: "map_of (data (entries ?st' ! 0)) CONF_DOMAIN = Some (PyStr ''switch'')"
    by (simp add: c)
  have frame: "\<forall>k. k \<noteq> CONF_DOMAIN \<longrightarrow>
      map_of (data (entries ?st' ! 0)) k = map_of (data (entries hass_old_entry ! 0)) k"
    using k by blast
  have "map_of (data (entries ?st' ! 0)) CONF_HOST = map_of (data (entries hass_old_entry ! 0)) CONF_HOST"
    using frame ne(1) by blast
  then have k4: "map_of (data (entries ?st' ! 0)) CONF_HOST = Some (PyStr ''old_host'')"
    by (simp add: d const_defs)
  have "map_of (data (entries ?st' ! 0)) CONF_PORT = map_of (data (entries hass_old_entry ! 0)) CONF_PORT"
    using frame ne(2) by blast
  then have k5: "map_of (data (entries ?st' ! 0)) CONF_PORT = Some (PyInt 111)"
    by (simp add: d const_defs)
  have "unique_id (entries ?st' ! 0) = unique_id (entries hass_old_entry ! 0)"
    using k by blast
  then have k6: "unique_id (entries ?st' ! 0) = Some MOCK_SERIAL_NUMBER"
    by (simp add: d)
  show ?thesis
    using l(1) r nd k1 k2 k3 k4 k5 k6 by blast
qed

end
